theory Spec2Isabelle
  imports Main "HOL-Library.AList"
begin

section \<open>The protocol data the mux handles\<close>

text \<open>
  The mux (package tfmux, \<^verbatim>\<open>SchemaServerFactory\<close> and \<^verbatim>\<open>SchemaServer\<close>) stands in
  front of several provider servers. Only the fields the mux reads or writes are modelled;
  everything else a request or response carries is an opaque payload.

  A Go pointer that may be nil is an \<open>option\<close>; a Go slice is a list; a Go map that the
  code ranges over is an association list whose order stands for the order in which that
  run of \<^verbatim>\<open>range\<close> visits the entries, and whose lookup is \<open>map_of\<close>.
\<close>

datatype DiagnosticSeverity =
  DiagnosticSeverityInvalid | DiagnosticSeverityError | DiagnosticSeverityWarning

record Diagnostic =
  Severity :: DiagnosticSeverity
  Summary :: string
  Detail :: string
  Attribute :: "string option"

type_synonym Schema = string

record GetProviderSchemaResponse =
  Provider :: "Schema option"
  ProviderMeta :: "Schema option"
  ResourceSchemas :: "(string \<times> Schema option) list"
  DataSourceSchemas :: "(string \<times> Schema option) list"
  Diagnostics :: "Diagnostic option list"

record TypedRequest =
  TypeName :: string
  Payload :: string

type_synonym TypedResponse = string
type_synonym PrepareProviderConfigRequest = string
type_synonym PrepareProviderConfigResponse = string
type_synonym ConfigureProviderRequest = string

datatype StopProviderRequest = StopProviderRequest

record ConfigureProviderResponse =
  ConfigureDiagnostics :: "Diagnostic option list"

record StopProviderResponse =
  Error :: string

text \<open>
  Go errors. The operands that the source formats with \<^verbatim>\<open>%T\<close> (a server, or the
  constructor of a server) are recorded as the position of that server in the list of servers;
  \<^verbatim>\<open>%w\<close> wraps the cause.
\<close>

datatype error =
    BackendError string
  | ErrRetrievingSchema nat error
  | ErrSchemaDiagnostic nat "string option" string string
  | ErrProviderSchemaMultiple int nat
  | ErrProviderMetaSchemaMultiple int nat
  | ErrResourceMultiple string nat nat
  | ErrDataSourceMultiple string nat nat
  | ErrNoProviderSchemaServer
  | ErrNotSupported string
  | ErrConfiguring nat error
  | ErrStopping nat error
  | ErrMissingType
  | ErrUnmarshal error

text \<open>
  A Go function either returns or panics (nil dereference, index out of range).
\<close>

datatype 'a outcome = Panic | Returns 'a

text \<open>
  A backend is opaque: one function per RPC. A call returns the pair (response, error) of
  the Go signature and may change the world \<open>'w\<close> outside the mux, so that which backends
  were called, and in which order, shows in the world the mux hands back.
  The build calls \<^verbatim>\<open>GetProviderSchema\<close> once per backend, on an instance fresh from its
  constructor and with the empty request, so that reply is a value of the backend.
\<close>

type_synonym ('w, 'q, 'r) rpc = "'q \<Rightarrow> 'w \<Rightarrow> ('r option \<times> error option) \<times> 'w"

record 'w ProviderServer =
  GetProviderSchema :: "GetProviderSchemaResponse option \<times> error option"
  PrepareProviderConfig :: "('w, PrepareProviderConfigRequest, PrepareProviderConfigResponse) rpc"
  ValidateResourceTypeConfig :: "('w, TypedRequest, TypedResponse) rpc"
  ValidateDataSourceConfig :: "('w, TypedRequest, TypedResponse) rpc"
  UpgradeResourceState :: "('w, TypedRequest, TypedResponse) rpc"
  ConfigureProvider :: "('w, ConfigureProviderRequest, ConfigureProviderResponse) rpc"
  ReadResource :: "('w, TypedRequest, TypedResponse) rpc"
  PlanResourceChange :: "('w, TypedRequest, TypedResponse) rpc"
  ApplyResourceChange :: "('w, TypedRequest, TypedResponse) rpc"
  ImportResourceState :: "('w, TypedRequest, TypedResponse) rpc"
  ReadDataSource :: "('w, TypedRequest, TypedResponse) rpc"
  StopProvider :: "('w, StopProviderRequest, StopProviderResponse) rpc"

section \<open>SchemaServer: the runtime router\<close>

record 'w SchemaServer =
  srv_resources :: "string \<rightharpoonup> 'w ProviderServer"
  srv_dataSources :: "string \<rightharpoonup> 'w ProviderServer"
  srv_servers :: "'w ProviderServer list"
  getSchemaHandler :: "GetProviderSchemaResponse option \<times> error option"
  prepareProviderConfigServer :: int

definition SchemaServer_GetProviderSchema ::
  "'w SchemaServer \<Rightarrow> 'w \<Rightarrow> (GetProviderSchemaResponse option \<times> error option) \<times> 'w" where
  "SchemaServer_GetProviderSchema s w = (getSchemaHandler s, w)"

definition SchemaServer_PrepareProviderConfig ::
  "'w SchemaServer \<Rightarrow> ('w, PrepareProviderConfigRequest, PrepareProviderConfigResponse) rpc" where
  "SchemaServer_PrepareProviderConfig s req w =
     (if prepareProviderConfigServer s < 0
         \<or> int (length (srv_servers s)) \<le> prepareProviderConfigServer s
      then ((None, Some ErrNoProviderSchemaServer), w)
      else PrepareProviderConfig (srv_servers s ! nat (prepareProviderConfigServer s)) req w)"

definition SchemaServer_ValidateResourceTypeConfig ::
  "'w SchemaServer \<Rightarrow> ('w, TypedRequest, TypedResponse) rpc" where
  "SchemaServer_ValidateResourceTypeConfig s req w =
     (case srv_resources s (TypeName req) of
        None \<Rightarrow> ((None, Some (ErrNotSupported (TypeName req))), w)
      | Some h \<Rightarrow> ValidateResourceTypeConfig h req w)"

definition SchemaServer_ValidateDataSourceConfig ::
  "'w SchemaServer \<Rightarrow> ('w, TypedRequest, TypedResponse) rpc" where
  "SchemaServer_ValidateDataSourceConfig s req w =
     (case srv_dataSources s (TypeName req) of
        None \<Rightarrow> ((None, Some (ErrNotSupported (TypeName req))), w)
      | Some h \<Rightarrow> ValidateDataSourceConfig h req w)"

definition SchemaServer_UpgradeResourceState ::
  "'w SchemaServer \<Rightarrow> ('w, TypedRequest, TypedResponse) rpc" where
  "SchemaServer_UpgradeResourceState s req w =
     (case srv_resources s (TypeName req) of
        None \<Rightarrow> ((None, Some (ErrNotSupported (TypeName req))), w)
      | Some h \<Rightarrow> UpgradeResourceState h req w)"

definition SchemaServer_ReadResource ::
  "'w SchemaServer \<Rightarrow> ('w, TypedRequest, TypedResponse) rpc" where
  "SchemaServer_ReadResource s req w =
     (case srv_resources s (TypeName req) of
        None \<Rightarrow> ((None, Some (ErrNotSupported (TypeName req))), w)
      | Some h \<Rightarrow> ReadResource h req w)"

definition SchemaServer_PlanResourceChange ::
  "'w SchemaServer \<Rightarrow> ('w, TypedRequest, TypedResponse) rpc" where
  "SchemaServer_PlanResourceChange s req w =
     (case srv_resources s (TypeName req) of
        None \<Rightarrow> ((None, Some (ErrNotSupported (TypeName req))), w)
      | Some h \<Rightarrow> PlanResourceChange h req w)"

definition SchemaServer_ApplyResourceChange ::
  "'w SchemaServer \<Rightarrow> ('w, TypedRequest, TypedResponse) rpc" where
  "SchemaServer_ApplyResourceChange s req w =
     (case srv_resources s (TypeName req) of
        None \<Rightarrow> ((None, Some (ErrNotSupported (TypeName req))), w)
      | Some h \<Rightarrow> ApplyResourceChange h req w)"

definition SchemaServer_ImportResourceState ::
  "'w SchemaServer \<Rightarrow> ('w, TypedRequest, TypedResponse) rpc" where
  "SchemaServer_ImportResourceState s req w =
     (case srv_resources s (TypeName req) of
        None \<Rightarrow> ((None, Some (ErrNotSupported (TypeName req))), w)
      | Some h \<Rightarrow> ImportResourceState h req w)"

definition SchemaServer_ReadDataSource ::
  "'w SchemaServer \<Rightarrow> ('w, TypedRequest, TypedResponse) rpc" where
  "SchemaServer_ReadDataSource s req w =
     (case srv_dataSources s (TypeName req) of
        None \<Rightarrow> ((None, Some (ErrNotSupported (TypeName req))), w)
      | Some h \<Rightarrow> ReadDataSource h req w)"

text \<open>
  ConfigureProvider. The inner loop over one reply's diagnostics: nil entries are skipped,
  every other entry is appended to \<open>diags\<close>, and an entry of error severity ends the whole
  call (\<open>Inl\<close>, with the diagnostics accumulated so far); \<open>Inr\<close> is the loop running to its end.
\<close>

fun configureDiags ::
  "Diagnostic option list \<Rightarrow> Diagnostic option list
     \<Rightarrow> Diagnostic option list + Diagnostic option list" where
  "configureDiags [] diags = Inr diags"
| "configureDiags (None # rest) diags = configureDiags rest diags"
| "configureDiags (Some d # rest) diags =
     (if Severity d \<noteq> DiagnosticSeverityError
      then configureDiags rest (diags @ [Some d])
      else Inl (diags @ [Some d]))"

text \<open>
  The outer loop over \<^verbatim>\<open>s.servers\<close>; \<open>pos\<close> is the position of \<open>server\<close>, kept for the
  error value only. A backend that returns neither a response nor an error makes
  \<^verbatim>\<open>resp.Diagnostics\<close> a nil dereference.
\<close>

fun ConfigureProvider_loop ::
  "nat \<Rightarrow> 'w ProviderServer list \<Rightarrow> ConfigureProviderRequest \<Rightarrow> Diagnostic option list \<Rightarrow> 'w
     \<Rightarrow> ((ConfigureProviderResponse option \<times> error option) \<times> 'w) outcome" where
  "ConfigureProvider_loop pos [] req diags w =
     Returns ((Some \<lparr>ConfigureDiagnostics = diags\<rparr>, None), w)"
| "ConfigureProvider_loop pos (server # rest) req diags w =
     (case ConfigureProvider server req w of
        ((resp, Some err), w') \<Rightarrow> Returns ((resp, Some (ErrConfiguring pos err)), w')
      | ((None, None), w') \<Rightarrow> Panic
      | ((Some resp, None), w') \<Rightarrow>
          (case configureDiags (ConfigureDiagnostics resp) diags of
             Inl diags' \<Rightarrow> Returns ((Some (resp\<lparr>ConfigureDiagnostics := diags'\<rparr>), None), w')
           | Inr diags' \<Rightarrow> ConfigureProvider_loop (Suc pos) rest req diags' w'))"

definition SchemaServer_ConfigureProvider ::
  "'w SchemaServer \<Rightarrow> ConfigureProviderRequest \<Rightarrow> 'w
     \<Rightarrow> ((ConfigureProviderResponse option \<times> error option) \<times> 'w) outcome" where
  "SchemaServer_ConfigureProvider s req w = ConfigureProvider_loop 0 (srv_servers s) req [] w"

text \<open>
  StopProvider: the loop returns the reply of the first backend whose reply has a non-empty
  \<^verbatim>\<open>Error\<close>, and an empty reply when the loop runs to its end.
\<close>

fun StopProvider_loop ::
  "nat \<Rightarrow> 'w ProviderServer list \<Rightarrow> StopProviderRequest \<Rightarrow> 'w
     \<Rightarrow> ((StopProviderResponse option \<times> error option) \<times> 'w) outcome" where
  "StopProvider_loop pos [] req w = Returns ((Some \<lparr>Error = ''''\<rparr>, None), w)"
| "StopProvider_loop pos (server # rest) req w =
     (case StopProvider server req w of
        ((resp, Some err), w') \<Rightarrow> Returns ((resp, Some (ErrStopping pos err)), w')
      | ((None, None), w') \<Rightarrow> Panic
      | ((Some resp, None), w') \<Rightarrow>
          (if Error resp \<noteq> '''' then Returns ((Some resp, None), w')
           else StopProvider_loop (Suc pos) rest req w'))"

definition SchemaServer_StopProvider ::
  "'w SchemaServer \<Rightarrow> StopProviderRequest \<Rightarrow> 'w
     \<Rightarrow> ((StopProviderResponse option \<times> error option) \<times> 'w) outcome" where
  "SchemaServer_StopProvider s req w = StopProvider_loop 0 (srv_servers s) req w"

section \<open>SchemaServerFactory: the build\<close>

text \<open>
  A constructor of a backend is a Go \<^verbatim>\<open>func() tfprotov5.ProviderServer\<close>. The slice
  \<^verbatim>\<open>factory.servers\<close> is made with the length of the argument list and holds nil until the
  loop stores the constructor at its position.
\<close>

type_synonym 'w constructor = "unit \<Rightarrow> 'w ProviderServer"

record 'w SchemaServerFactory =
  resources :: "(string \<times> nat) list"
  dataSources :: "(string \<times> nat) list"
  servers :: "'w constructor option list"
  resourceSchemas :: "(string \<times> Schema option) list"
  dataSourceSchemas :: "(string \<times> Schema option) list"
  providerSchema :: "Schema option"
  providerMetaSchema :: "Schema option"
  diagnostics :: "Diagnostic option list"
  providerSchemaFrom :: int
  providerMetaSchemaFrom :: int

text \<open>
  The loop over \<^verbatim>\<open>resp.Diagnostics\<close> (lines 70 to 79): a nil entry is skipped, an entry
  that is not of error severity is appended to \<^verbatim>\<open>factory.diagnostics\<close>, an entry of error
  severity returns the factory as it is with the error.
\<close>

fun NewSchemaServerFactory_diagnostics ::
  "nat \<Rightarrow> Diagnostic option list \<Rightarrow> 'w SchemaServerFactory
     \<Rightarrow> 'w SchemaServerFactory \<times> error option" where
  "NewSchemaServerFactory_diagnostics pos [] factory = (factory, None)"
| "NewSchemaServerFactory_diagnostics pos (None # rest) factory =
     NewSchemaServerFactory_diagnostics pos rest factory"
| "NewSchemaServerFactory_diagnostics pos (Some diag # rest) factory =
     (if Severity diag \<noteq> DiagnosticSeverityError
      then NewSchemaServerFactory_diagnostics pos rest
             (factory\<lparr>diagnostics := diagnostics factory @ [Some diag]\<rparr>)
      else (factory,
            Some (ErrSchemaDiagnostic pos (Attribute diag) (Summary diag) (Detail diag))))"

text \<open>The loop over \<^verbatim>\<open>resp.ResourceSchemas\<close> (lines 92 to 98).\<close>

fun NewSchemaServerFactory_resources ::
  "nat \<Rightarrow> (string \<times> Schema option) list \<Rightarrow> 'w SchemaServerFactory
     \<Rightarrow> 'w SchemaServerFactory \<times> error option" where
  "NewSchemaServerFactory_resources pos [] factory = (factory, None)"
| "NewSchemaServerFactory_resources pos ((resource, schema) # rest) factory =
     (case map_of (resources factory) resource of
        Some v \<Rightarrow> (factory, Some (ErrResourceMultiple resource v pos))
      | None \<Rightarrow> NewSchemaServerFactory_resources pos rest
          (factory\<lparr>resources := AList.update resource pos (resources factory),
                   resourceSchemas := AList.update resource schema (resourceSchemas factory)\<rparr>))"

text \<open>The loop over \<^verbatim>\<open>resp.DataSourceSchemas\<close> (lines 99 to 105).\<close>

fun NewSchemaServerFactory_dataSources ::
  "nat \<Rightarrow> (string \<times> Schema option) list \<Rightarrow> 'w SchemaServerFactory
     \<Rightarrow> 'w SchemaServerFactory \<times> error option" where
  "NewSchemaServerFactory_dataSources pos [] factory = (factory, None)"
| "NewSchemaServerFactory_dataSources pos ((data, schema) # rest) factory =
     (case map_of (dataSources factory) data of
        Some v \<Rightarrow> (factory, Some (ErrDataSourceMultiple data v pos))
      | None \<Rightarrow> NewSchemaServerFactory_dataSources pos rest
          (factory\<lparr>dataSources := AList.update data pos (dataSources factory),
                   dataSourceSchemas := AList.update data schema (dataSourceSchemas factory)\<rparr>))"

text \<open>
  The provider schema and the provider_meta schema (lines 80 to 91), each: an error when the
  reply declares one and one is recorded already, else recorded when the reply declares one.
\<close>

definition NewSchemaServerFactory_provider ::
  "nat \<Rightarrow> GetProviderSchemaResponse \<Rightarrow> 'w SchemaServerFactory
     \<Rightarrow> 'w SchemaServerFactory \<times> error option" where
  "NewSchemaServerFactory_provider pos resp factory =
     (if Provider resp \<noteq> None \<and> providerSchema factory \<noteq> None
      then (factory, Some (ErrProviderSchemaMultiple (providerSchemaFrom factory) pos))
      else if Provider resp \<noteq> None
      then (factory\<lparr>providerSchemaFrom := int pos, providerSchema := Provider resp\<rparr>, None)
      else (factory, None))"

definition NewSchemaServerFactory_providerMeta ::
  "nat \<Rightarrow> GetProviderSchemaResponse \<Rightarrow> 'w SchemaServerFactory
     \<Rightarrow> 'w SchemaServerFactory \<times> error option" where
  "NewSchemaServerFactory_providerMeta pos resp factory =
     (if ProviderMeta resp \<noteq> None \<and> providerMetaSchema factory \<noteq> None
      then (factory, Some (ErrProviderMetaSchemaMultiple (providerMetaSchemaFrom factory) pos))
      else if ProviderMeta resp \<noteq> None
      then (factory\<lparr>providerMetaSchemaFrom := int pos,
                    providerMetaSchema := ProviderMeta resp\<rparr>, None)
      else (factory, None))"

text \<open>
  What the body of the loop over the constructors does with the reply of one backend, once
  the call has returned a reply and no error: the four stages in the order of the source,
  each returning at once when it fails.
\<close>

definition NewSchemaServerFactory_response ::
  "nat \<Rightarrow> GetProviderSchemaResponse \<Rightarrow> 'w SchemaServerFactory
     \<Rightarrow> 'w SchemaServerFactory \<times> error option" where
  "NewSchemaServerFactory_response pos resp factory =
     (case NewSchemaServerFactory_diagnostics pos (Diagnostics resp) factory of
        (f1, Some err) \<Rightarrow> (f1, Some err)
      | (f1, None) \<Rightarrow>
     (case NewSchemaServerFactory_provider pos resp f1 of
        (f2, Some err) \<Rightarrow> (f2, Some err)
      | (f2, None) \<Rightarrow>
     (case NewSchemaServerFactory_providerMeta pos resp f2 of
        (f3, Some err) \<Rightarrow> (f3, Some err)
      | (f3, None) \<Rightarrow>
     (case NewSchemaServerFactory_resources pos (ResourceSchemas resp) f3 of
        (f4, Some err) \<Rightarrow> (f4, Some err)
      | (f4, None) \<Rightarrow> NewSchemaServerFactory_dataSources pos (DataSourceSchemas resp) f4))))"

text \<open>
  The loop over the constructors (lines 61 to 106). A backend that returns neither a reply
  nor an error makes \<^verbatim>\<open>resp.Diagnostics\<close> a nil dereference.
\<close>

fun NewSchemaServerFactory_loop ::
  "nat \<Rightarrow> 'w constructor list \<Rightarrow> 'w SchemaServerFactory
     \<Rightarrow> ('w SchemaServerFactory \<times> error option) outcome" where
  "NewSchemaServerFactory_loop pos [] factory = Returns (factory, None)"
| "NewSchemaServerFactory_loop pos (server # rest) factory =
     (case GetProviderSchema (server ()) of
        (resp, Some err) \<Rightarrow> Returns (factory, Some (ErrRetrievingSchema pos err))
      | (None, None) \<Rightarrow> Panic
      | (Some resp, None) \<Rightarrow>
          (case NewSchemaServerFactory_response pos resp
                  (factory\<lparr>servers := (servers factory)[pos := Some server]\<rparr>) of
             (factory', Some err) \<Rightarrow> Returns (factory', Some err)
           | (factory', None) \<Rightarrow> NewSchemaServerFactory_loop (Suc pos) rest factory'))"

definition NewSchemaServerFactory ::
  "'w constructor list \<Rightarrow> ('w SchemaServerFactory \<times> error option) outcome" where
  "NewSchemaServerFactory svs =
     NewSchemaServerFactory_loop 0 svs
       \<lparr>resources = [], dataSources = [], servers = replicate (length svs) None,
        resourceSchemas = [], dataSourceSchemas = [],
        providerSchema = None, providerMetaSchema = None, diagnostics = [],
        providerSchemaFrom = - 1, providerMetaSchemaFrom = - 1\<rparr>"

text \<open>
  \<^verbatim>\<open>getSchemaHandler\<close> (lines 110 to 117) ignores its arguments; the reply it builds sets
  four fields, so \<^verbatim>\<open>Diagnostics\<close> keeps the zero value of the struct.
\<close>

definition SchemaServerFactory_getSchemaHandler ::
  "'w SchemaServerFactory \<Rightarrow> GetProviderSchemaResponse option \<times> error option" where
  "SchemaServerFactory_getSchemaHandler s =
     (Some \<lparr>Provider = providerSchema s, ProviderMeta = providerMetaSchema s,
            ResourceSchemas = resourceSchemas s, DataSourceSchemas = dataSourceSchemas s,
            Diagnostics = []\<rparr>, None)"

text \<open>
  \<^verbatim>\<open>Server\<close> (lines 121 to 139): every constructor is called once more (calling a nil
  function panics), and each routing map sends a name to the instance at the recorded position
  (an index out of range panics).
\<close>

fun Server_construct :: "'w constructor option list \<Rightarrow> 'w ProviderServer list outcome" where
  "Server_construct [] = Returns []"
| "Server_construct (None # rest) = Panic"
| "Server_construct (Some server # rest) =
     (case Server_construct rest of Panic \<Rightarrow> Panic
      | Returns instances \<Rightarrow> Returns (server () # instances))"

fun Server_routes ::
  "'w ProviderServer list \<Rightarrow> (string \<times> nat) list \<Rightarrow> (string \<rightharpoonup> 'w ProviderServer)
     \<Rightarrow> (string \<rightharpoonup> 'w ProviderServer) outcome" where
  "Server_routes instances [] m = Returns m"
| "Server_routes instances ((r, pos) # rest) m =
     (if pos < length instances
      then Server_routes instances rest (m(r \<mapsto> instances ! pos))
      else Panic)"

definition SchemaServerFactory_Server :: "'w SchemaServerFactory \<Rightarrow> 'w SchemaServer outcome" where
  "SchemaServerFactory_Server s =
     (case Server_construct (servers s) of Panic \<Rightarrow> Panic
      | Returns instances \<Rightarrow>
     (case Server_routes instances (resources s) Map.empty of Panic \<Rightarrow> Panic
      | Returns rs \<Rightarrow>
     (case Server_routes instances (dataSources s) Map.empty of Panic \<Rightarrow> Panic
      | Returns ds \<Rightarrow>
          Returns \<lparr>srv_resources = rs, srv_dataSources = ds, srv_servers = instances,
                   getSchemaHandler = SchemaServerFactory_getSchemaHandler s,
                   prepareProviderConfigServer = providerSchemaFrom s\<rparr>)))"

section \<open>dynamicValueEquals\<close>

text \<open>
  \<^verbatim>\<open>DynamicValue.Unmarshal\<close> and \<^verbatim>\<open>Value.Equal\<close> belong to terraform-plugin-go and are
  parameters here. \<^verbatim>\<open>Unmarshal\<close> takes the type as the source passes it (an interface
  value that may be nil) and may panic.
\<close>

definition dynamicValueEquals ::
  "('d \<Rightarrow> 't option \<Rightarrow> ('v \<times> error option) outcome) \<Rightarrow> ('v \<Rightarrow> 'v \<Rightarrow> bool)
     \<Rightarrow> 't option \<Rightarrow> 'd option \<Rightarrow> 'd option \<Rightarrow> (bool \<times> error option) outcome" where
  "dynamicValueEquals Unmarshal Equal schemaType i j =
     (case i of
        None \<Rightarrow> Returns (j = None, None)
      | Some iv \<Rightarrow>
     (case j of
        None \<Rightarrow> Returns (False, None)
      | Some jv \<Rightarrow>
     (if schemaType = None then Returns (False, Some ErrMissingType)
      else
     (case Unmarshal iv schemaType of
        Panic \<Rightarrow> Panic
      | Returns (iValue, Some err) \<Rightarrow> Returns (False, Some (ErrUnmarshal err))
      | Returns (iValue, None) \<Rightarrow>
     (case Unmarshal jv schemaType of
        Panic \<Rightarrow> Panic
      | Returns (jValue, Some err) \<Rightarrow> Returns (False, Some (ErrUnmarshal err))
      | Returns (jValue, None) \<Rightarrow> Returns (Equal iValue jValue, None))))))"

section \<open>Vocabulary of the properties\<close>

text \<open>
  Calling one operation \<open>rpc\<close> of every backend of a list once, in the order of the list and
  with the same request, each call starting in the world the call before it left: the
  replies in that order, and the last world.
\<close>

fun invokeAll ::
  "('b \<Rightarrow> 'q \<Rightarrow> 'w \<Rightarrow> 'a \<times> 'w) \<Rightarrow> 'b list \<Rightarrow> 'q \<Rightarrow> 'w \<Rightarrow> 'a list \<times> 'w" where
  "invokeAll rpc [] req w = ([], w)"
| "invokeAll rpc (b # bs) req w =
     (case rpc b req w of (r, w') \<Rightarrow>
        (case invokeAll rpc bs req w' of (rs, w'') \<Rightarrow> (r # rs, w'')))"

definition nonNil :: "Diagnostic option list \<Rightarrow> Diagnostic option list" where
  "nonNil ds = filter (\<lambda>d. d \<noteq> None) ds"

fun hasErrorSeverity :: "Diagnostic option \<Rightarrow> bool" where
  "hasErrorSeverity None = False"
| "hasErrorSeverity (Some d) = (Severity d = DiagnosticSeverityError)"

text \<open>
  A reply to ConfigureProvider that does not stop the fan-out: a response, no error, and no
  diagnostic of error severity. Its diagnostics are the entries that are not nil.
\<close>

fun configureClean :: "ConfigureProviderResponse option \<times> error option \<Rightarrow> bool" where
  "configureClean (Some resp, None) = (\<not> list_ex hasErrorSeverity (ConfigureDiagnostics resp))"
| "configureClean (resp, err) = False"

fun configureReplyDiagnostics ::
  "ConfigureProviderResponse option \<times> error option \<Rightarrow> Diagnostic option list" where
  "configureReplyDiagnostics (Some resp, err) = nonNil (ConfigureDiagnostics resp)"
| "configureReplyDiagnostics (None, err) = []"

text \<open>
  A backend whose replies to ConfigureProvider have the nil entries of their diagnostics
  removed, and which is the same backend otherwise.
\<close>

definition dropNilDiagnostics :: "'w ProviderServer \<Rightarrow> 'w ProviderServer" where
  "dropNilDiagnostics server =
     server\<lparr>ConfigureProvider := (\<lambda>req w.
       (case ConfigureProvider server req w of
          ((Some resp, None), w') \<Rightarrow>
             ((Some (resp\<lparr>ConfigureDiagnostics := nonNil (ConfigureDiagnostics resp)\<rparr>), None), w')
        | r \<Rightarrow> r))\<rparr>"

section \<open>Test backends\<close>

text \<open>
  A backend for the examples, in the manner of the test server of the repository's tests:
  it is numbered \<open>n\<close>, the world is the log of the numbers of the backends called so far,
  and the replies are fixed by the arguments.
\<close>

definition TestServer ::
  "nat \<Rightarrow> GetProviderSchemaResponse \<Rightarrow> Diagnostic option list \<Rightarrow> string
     \<Rightarrow> nat list ProviderServer" where
  "TestServer n schema cdiags stopError =
     \<lparr>GetProviderSchema = (Some schema, None),
      PrepareProviderConfig = (\<lambda>req w. ((Some req, None), w @ [n])),
      ValidateResourceTypeConfig = (\<lambda>req w. ((Some (Payload req), None), w @ [n])),
      ValidateDataSourceConfig = (\<lambda>req w. ((Some (Payload req), None), w @ [n])),
      UpgradeResourceState = (\<lambda>req w. ((Some (Payload req), None), w @ [n])),
      ConfigureProvider =
        (\<lambda>req w. ((Some \<lparr>ConfigureDiagnostics = cdiags\<rparr>, None), w @ [n])),
      ReadResource = (\<lambda>req w. ((Some (Payload req), None), w @ [n])),
      PlanResourceChange = (\<lambda>req w. ((Some (Payload req), None), w @ [n])),
      ApplyResourceChange = (\<lambda>req w. ((Some (Payload req), None), w @ [n])),
      ImportResourceState = (\<lambda>req w. ((Some (Payload req), None), w @ [n])),
      ReadDataSource = (\<lambda>req w. ((Some (Payload req), None), w @ [n])),
      StopProvider = (\<lambda>req w. ((Some \<lparr>Error = stopError\<rparr>, None), w @ [n]))\<rparr>"

definition emptySchema :: GetProviderSchemaResponse where
  "emptySchema = \<lparr>Provider = None, ProviderMeta = None, ResourceSchemas = [],
                  DataSourceSchemas = [], Diagnostics = []\<rparr>"

definition warning :: "string \<Rightarrow> Diagnostic" where
  "warning s = \<lparr>Severity = DiagnosticSeverityWarning, Summary = s, Detail = [], Attribute = None\<rparr>"

definition failure :: "string \<Rightarrow> Diagnostic" where
  "failure s = \<lparr>Severity = DiagnosticSeverityError, Summary = s, Detail = [], Attribute = None\<rparr>"

definition testRouter :: "nat list ProviderServer list \<Rightarrow> nat list SchemaServer" where
  "testRouter instances =
     \<lparr>srv_resources = Map.empty, srv_dataSources = Map.empty, srv_servers = instances,
      getSchemaHandler = (Some emptySchema, None), prepareProviderConfigServer = - 1\<rparr>"

text \<open>
  A router over two backends, as the tests of the repository set it up: backend 0 owns
  resource \<open>test_resource_server1\<close> and data source \<open>test_data_source_server1\<close>,
  backend 1 owns \<open>test_resource_server2\<close> and \<open>test_data_source_server2\<close>.
\<close>

definition routedExample :: "nat list SchemaServer" where
  "routedExample =
     \<lparr>srv_resources = [''test_resource_server1'' \<mapsto> TestServer 0 emptySchema [] [],
                       ''test_resource_server2'' \<mapsto> TestServer 1 emptySchema [] []],
      srv_dataSources = [''test_data_source_server1'' \<mapsto> TestServer 0 emptySchema [] [],
                         ''test_data_source_server2'' \<mapsto> TestServer 1 emptySchema [] []],
      srv_servers = [TestServer 0 emptySchema [] [], TestServer 1 emptySchema [] []],
      getSchemaHandler = (Some emptySchema, None), prepareProviderConfigServer = - 1\<rparr>"

text \<open>Routers over three test backends for the fan-out operations.\<close>

definition configureExample :: "nat list SchemaServer" where
  "configureExample = testRouter
     [TestServer 0 emptySchema [Some (warning ''a'')] [],
      TestServer 1 emptySchema
        [None, Some (warning ''b1''), Some (failure ''b2''), Some (warning ''b3'')] [],
      TestServer 2 emptySchema [Some (warning ''c'')] []]"

definition configureCleanExample :: "nat list SchemaServer" where
  "configureCleanExample = testRouter
     [TestServer 0 emptySchema [Some (warning ''a'')] [],
      TestServer 1 emptySchema [None, Some (warning ''b'')] [],
      TestServer 2 emptySchema [Some (warning ''c''), None] []]"

definition nilExample :: "nat list SchemaServer" where
  "nilExample = testRouter
     [TestServer 0 emptySchema [None, Some (warning ''a''), None] [],
      TestServer 1 emptySchema [None, Some (failure ''b''), None] [],
      TestServer 2 emptySchema [None] []]"

definition stopExample :: "nat list SchemaServer" where
  "stopExample = testRouter
     [TestServer 0 emptySchema [] ''a'',
      TestServer 1 emptySchema [] [],
      TestServer 2 emptySchema [] ''c'']"

section \<open>Type-keyed dispatch\<close>

text \<open>
  C4. Each of the eight type-keyed operations looks the type name of the request up in its
  routing map (the six resource operations in the resource map, the two data-source operations
  in the data-source map). When the name is absent the operation returns no response and the
  unregistered-type error and leaves the world as it was, whatever the backends are, so no
  backend is called. When the name is registered to a backend, what the operation returns
  (response, error and the world after) is what that backend's operation returns on the same
  request and the same world: that backend is called once and no other.
\<close>

theorem typed_dispatch:
  "(srv_resources s (TypeName req) = None \<longrightarrow>
      SchemaServer_ValidateResourceTypeConfig s req w
        = ((None, Some (ErrNotSupported (TypeName req))), w)
    \<and> SchemaServer_UpgradeResourceState s req w
        = ((None, Some (ErrNotSupported (TypeName req))), w)
    \<and> SchemaServer_ReadResource s req w = ((None, Some (ErrNotSupported (TypeName req))), w)
    \<and> SchemaServer_PlanResourceChange s req w
        = ((None, Some (ErrNotSupported (TypeName req))), w)
    \<and> SchemaServer_ApplyResourceChange s req w
        = ((None, Some (ErrNotSupported (TypeName req))), w)
    \<and> SchemaServer_ImportResourceState s req w
        = ((None, Some (ErrNotSupported (TypeName req))), w))
   \<and> (srv_dataSources s (TypeName req) = None \<longrightarrow>
      SchemaServer_ValidateDataSourceConfig s req w
        = ((None, Some (ErrNotSupported (TypeName req))), w)
    \<and> SchemaServer_ReadDataSource s req w = ((None, Some (ErrNotSupported (TypeName req))), w))
   \<and> (\<forall>B. srv_resources s (TypeName req) = Some B \<longrightarrow>
      SchemaServer_ValidateResourceTypeConfig s req w = ValidateResourceTypeConfig B req w
    \<and> SchemaServer_UpgradeResourceState s req w = UpgradeResourceState B req w
    \<and> SchemaServer_ReadResource s req w = ReadResource B req w
    \<and> SchemaServer_PlanResourceChange s req w = PlanResourceChange B req w
    \<and> SchemaServer_ApplyResourceChange s req w = ApplyResourceChange B req w
    \<and> SchemaServer_ImportResourceState s req w = ImportResourceState B req w)
   \<and> (\<forall>B. srv_dataSources s (TypeName req) = Some B \<longrightarrow>
      SchemaServer_ValidateDataSourceConfig s req w = ValidateDataSourceConfig B req w
    \<and> SchemaServer_ReadDataSource s req w = ReadDataSource B req w)"
  by (simp add: SchemaServer_ValidateResourceTypeConfig_def SchemaServer_UpgradeResourceState_def
      SchemaServer_ReadResource_def SchemaServer_PlanResourceChange_def
      SchemaServer_ApplyResourceChange_def SchemaServer_ImportResourceState_def
      SchemaServer_ValidateDataSourceConfig_def SchemaServer_ReadDataSource_def)

theorem typed_dispatch_witness:
  "srv_resources routedExample ''test_resource_server2'' = Some (TestServer 1 emptySchema [] [])
   \<and> SchemaServer_ReadResource routedExample
         \<lparr>TypeName = ''test_resource_server2'', Payload = ''p''\<rparr> []
       = ((Some ''p'', None), [1])
   \<and> SchemaServer_ImportResourceState routedExample
         \<lparr>TypeName = ''test_resource_server2'', Payload = ''p''\<rparr> [0]
       = ((Some ''p'', None), [0, 1])
   \<and> srv_dataSources routedExample ''test_data_source_server1''
       = Some (TestServer 0 emptySchema [] [])
   \<and> SchemaServer_ReadDataSource routedExample
         \<lparr>TypeName = ''test_data_source_server1'', Payload = ''q''\<rparr> []
       = ((Some ''q'', None), [0])
   \<and> srv_resources routedExample ''test_data_source_server1'' = None
   \<and> SchemaServer_PlanResourceChange routedExample
         \<lparr>TypeName = ''test_data_source_server1'', Payload = ''q''\<rparr> [7]
       = ((None, Some (ErrNotSupported ''test_data_source_server1'')), [7])
   \<and> srv_dataSources routedExample ''test_resource_server2'' = None
   \<and> SchemaServer_ValidateDataSourceConfig routedExample
         \<lparr>TypeName = ''test_resource_server2'', Payload = ''p''\<rparr> [7]
       = ((None, Some (ErrNotSupported ''test_resource_server2'')), [7])"
  using typed_dispatch [of routedExample
          "\<lparr>TypeName = ''test_resource_server2'', Payload = ''p''\<rparr>" "[]"]
        typed_dispatch [of routedExample
          "\<lparr>TypeName = ''test_resource_server2'', Payload = ''p''\<rparr>" "[0]"]
        typed_dispatch [of routedExample
          "\<lparr>TypeName = ''test_resource_server2'', Payload = ''p''\<rparr>" "[7]"]
        typed_dispatch [of routedExample
          "\<lparr>TypeName = ''test_data_source_server1'', Payload = ''q''\<rparr>" "[]"]
        typed_dispatch [of routedExample
          "\<lparr>TypeName = ''test_data_source_server1'', Payload = ''q''\<rparr>" "[7]"]
  by (simp add: routedExample_def TestServer_def)

section \<open>dynamicValueEquals on nil arguments\<close>

text \<open>
  C9. For every schema type, every unmarshalling function and every equality: nil compared
  with nil returns true and no error; nil compared with a value that is not nil, in either
  order, returns false and no error; two values that are not nil compared at a nil schema
  type return false and the missing-type error. None of the four depends on the unmarshalling
  function, which can be one that panics: it is not called.
\<close>

theorem dynamicValueEquals_nil:
  "dynamicValueEquals Unmarshal Equal schemaType None None = Returns (True, None)
   \<and> dynamicValueEquals Unmarshal Equal schemaType None (Some j) = Returns (False, None)
   \<and> dynamicValueEquals Unmarshal Equal schemaType (Some i) None = Returns (False, None)
   \<and> dynamicValueEquals Unmarshal Equal None (Some i) (Some j)
       = Returns (False, Some ErrMissingType)"
  by (simp add: dynamicValueEquals_def)

section \<open>ConfigureProvider: fan-out that stops at the first error\<close>

lemma configureDiags_clean:
  "\<not> list_ex hasErrorSeverity ds \<Longrightarrow> configureDiags ds acc = Inr (acc @ nonNil ds)"
  by (induction ds acc rule: configureDiags.induct) (simp_all add: nonNil_def)

lemma configureDiags_error:
  "\<not> list_ex hasErrorSeverity ds1 \<Longrightarrow> Severity d = DiagnosticSeverityError \<Longrightarrow>
   configureDiags (ds1 @ Some d # ds2) acc = Inl (acc @ nonNil ds1 @ [Some d])"
  by (induction ds1 acc rule: configureDiags.induct) (simp_all add: nonNil_def)

lemma configureDiags_nonNil: "configureDiags (nonNil ds) acc = configureDiags ds acc"
  by (induction ds acc rule: configureDiags.induct) (simp_all add: nonNil_def)

lemma ConfigureProvider_loop_clean:
  "list_all configureClean (fst (invokeAll ConfigureProvider bs req w)) \<Longrightarrow>
   ConfigureProvider_loop pos bs req acc w =
     Returns ((Some \<lparr>ConfigureDiagnostics =
                 acc @ concat (map configureReplyDiagnostics
                                 (fst (invokeAll ConfigureProvider bs req w)))\<rparr>, None),
              snd (invokeAll ConfigureProvider bs req w))"
proof (induction bs arbitrary: pos acc w)
  case Nil
  then show ?case by simp
next
  case (Cons b bs)
  obtain r w' where b: "ConfigureProvider b req w = (r, w')" by (cases "ConfigureProvider b req w")
  obtain rs w'' where bs: "invokeAll ConfigureProvider bs req w' = (rs, w'')"
    by (cases "invokeAll ConfigureProvider bs req w'")
  from Cons.prems b bs have r: "configureClean r" and rs: "list_all configureClean rs" by simp_all
  from r obtain resp where resp: "r = (Some resp, None)"
    and noerr: "\<not> list_ex hasErrorSeverity (ConfigureDiagnostics resp)"
    by (cases r rule: configureClean.cases) simp_all
  from rs bs have "list_all configureClean (fst (invokeAll ConfigureProvider bs req w'))" by simp
  from Cons.IH [OF this, of "Suc pos" "acc @ nonNil (ConfigureDiagnostics resp)"]
  show ?case using b bs resp by (simp add: configureDiags_clean [OF noerr])
qed

lemma ConfigureProvider_loop_error:
  assumes "invokeAll ConfigureProvider pre req w = (rs, w1)"
    and "list_all configureClean rs"
    and "ConfigureProvider B req w1 = ((Some resp, None), w2)"
    and "ConfigureDiagnostics resp = ds1 @ Some d # ds2"
    and "\<not> list_ex hasErrorSeverity ds1"
    and "Severity d = DiagnosticSeverityError"
  shows "ConfigureProvider_loop pos (pre @ B # post) req acc w =
     Returns ((Some (resp\<lparr>ConfigureDiagnostics :=
                 acc @ concat (map configureReplyDiagnostics rs) @ nonNil ds1 @ [Some d]\<rparr>), None),
              w2)"
  using assms(1,2)
proof (induction pre arbitrary: pos acc w rs)
  case Nil
  then show ?case using assms(3-6) by (simp add: configureDiags_error)
next
  case (Cons b bs)
  obtain r w' where b: "ConfigureProvider b req w = (r, w')" by (cases "ConfigureProvider b req w")
  obtain rs' w'' where bs: "invokeAll ConfigureProvider bs req w' = (rs', w'')"
    by (cases "invokeAll ConfigureProvider bs req w'")
  from Cons.prems b bs have eq: "rs = r # rs'" "w'' = w1" by simp_all
  with Cons.prems have r: "configureClean r" and rs: "list_all configureClean rs'" by simp_all
  from r obtain resp' where resp: "r = (Some resp', None)"
    and noerr: "\<not> list_ex hasErrorSeverity (ConfigureDiagnostics resp')"
    by (cases r rule: configureClean.cases) simp_all
  from bs eq have "invokeAll ConfigureProvider bs req w' = (rs', w1)" by simp
  from Cons.IH [OF this rs, of "Suc pos" "acc @ nonNil (ConfigureDiagnostics resp')"]
  show ?case using b resp eq by (simp add: configureDiags_clean [OF noerr])
qed

lemma ex_clean_invoke:
  "invokeAll ConfigureProvider (srv_servers configureCleanExample) ''cfg'' []
   = ([(Some \<lparr>ConfigureDiagnostics = [Some (warning ''a'')]\<rparr>, None),
       (Some \<lparr>ConfigureDiagnostics = [None, Some (warning ''b'')]\<rparr>, None),
       (Some \<lparr>ConfigureDiagnostics = [Some (warning ''c''), None]\<rparr>, None)], [0, 1, 2])"
  by (simp add: configureCleanExample_def testRouter_def TestServer_def)

text \<open>
  C3. ConfigureProvider calls the backends one after the other, in the order of
  \<^verbatim>\<open>s.servers\<close>, each with the request it was given. When every backend replies without an
  error and without a diagnostic of error severity, the result is a response whose diagnostics
  are the diagnostics of all the replies in that order (nil entries left out), and the world
  is the one left by calling every backend once in order. When the backends before \<open>B\<close>
  reply so and the reply of \<open>B\<close> has a first diagnostic \<open>d\<close> of error severity, the result is
  the response of \<open>B\<close> with its diagnostics set to those of the earlier replies followed by
  those of \<open>B\<close> up to and including \<open>d\<close>, and the world is the one \<open>B\<close> left: the
  backends after \<open>B\<close> are not called.
\<close>

theorem configure_fan_out:
  "(list_all configureClean (fst (invokeAll ConfigureProvider (srv_servers s) req w)) \<longrightarrow>
      SchemaServer_ConfigureProvider s req w =
        Returns ((Some \<lparr>ConfigureDiagnostics =
                    concat (map configureReplyDiagnostics
                              (fst (invokeAll ConfigureProvider (srv_servers s) req w)))\<rparr>, None),
                 snd (invokeAll ConfigureProvider (srv_servers s) req w)))
   \<and> (\<forall>pre B post rs w1 resp w2 ds1 d ds2.
        srv_servers s = pre @ B # post
        \<and> invokeAll ConfigureProvider pre req w = (rs, w1)
        \<and> list_all configureClean rs
        \<and> ConfigureProvider B req w1 = ((Some resp, None), w2)
        \<and> ConfigureDiagnostics resp = ds1 @ Some d # ds2
        \<and> \<not> list_ex hasErrorSeverity ds1
        \<and> Severity d = DiagnosticSeverityError \<longrightarrow>
      SchemaServer_ConfigureProvider s req w =
        Returns ((Some (resp\<lparr>ConfigureDiagnostics :=
                    concat (map configureReplyDiagnostics rs) @ nonNil ds1 @ [Some d]\<rparr>), None),
                 w2))"
proof (intro conjI impI allI)
  assume "list_all configureClean (fst (invokeAll ConfigureProvider (srv_servers s) req w))"
  from ConfigureProvider_loop_clean [OF this, of 0 "[]"]
  show "SchemaServer_ConfigureProvider s req w =
        Returns ((Some \<lparr>ConfigureDiagnostics =
                    concat (map configureReplyDiagnostics
                              (fst (invokeAll ConfigureProvider (srv_servers s) req w)))\<rparr>, None),
                 snd (invokeAll ConfigureProvider (srv_servers s) req w))"
    by (simp add: SchemaServer_ConfigureProvider_def)
next
  fix pre B post rs w1 resp w2 ds1 d ds2
  assume a: "srv_servers s = pre @ B # post
        \<and> invokeAll ConfigureProvider pre req w = (rs, w1)
        \<and> list_all configureClean rs
        \<and> ConfigureProvider B req w1 = ((Some resp, None), w2)
        \<and> ConfigureDiagnostics resp = ds1 @ Some d # ds2
        \<and> \<not> list_ex hasErrorSeverity ds1
        \<and> Severity d = DiagnosticSeverityError"
  then have "ConfigureProvider_loop 0 (pre @ B # post) req [] w =
     Returns ((Some (resp\<lparr>ConfigureDiagnostics :=
                 [] @ concat (map configureReplyDiagnostics rs) @ nonNil ds1 @ [Some d]\<rparr>), None),
              w2)"
    by (blast intro: ConfigureProvider_loop_error)
  with a show "SchemaServer_ConfigureProvider s req w =
        Returns ((Some (resp\<lparr>ConfigureDiagnostics :=
                    concat (map configureReplyDiagnostics rs) @ nonNil ds1 @ [Some d]\<rparr>), None),
                 w2)"
    by (simp add: SchemaServer_ConfigureProvider_def)
qed

theorem configure_fan_out_witness:
  "list_all configureClean
     (fst (invokeAll ConfigureProvider (srv_servers configureCleanExample) ''cfg'' []))
   \<and> SchemaServer_ConfigureProvider configureCleanExample ''cfg'' [] =
       Returns ((Some \<lparr>ConfigureDiagnostics =
                   [Some (warning ''a''), Some (warning ''b''), Some (warning ''c'')]\<rparr>, None),
                [0, 1, 2])
   \<and> srv_servers configureExample =
       [TestServer 0 emptySchema [Some (warning ''a'')] []]
       @ TestServer 1 emptySchema
           [None, Some (warning ''b1''), Some (failure ''b2''), Some (warning ''b3'')] []
       # [TestServer 2 emptySchema [Some (warning ''c'')] []]
   \<and> SchemaServer_ConfigureProvider configureExample ''cfg'' [] =
       Returns ((Some \<lparr>ConfigureDiagnostics =
                   [Some (warning ''a''), Some (warning ''b1''), Some (failure ''b2'')]\<rparr>, None),
                [0, 1])"
proof -
  have clean: "list_all configureClean
     (fst (invokeAll ConfigureProvider (srv_servers configureCleanExample) ''cfg'' []))"
    by (simp add: ex_clean_invoke warning_def)
  have split: "srv_servers configureExample =
       [TestServer 0 emptySchema [Some (warning ''a'')] []]
       @ TestServer 1 emptySchema
           [None, Some (warning ''b1''), Some (failure ''b2''), Some (warning ''b3'')] []
       # [TestServer 2 emptySchema [Some (warning ''c'')] []]"
    by (simp add: configureExample_def testRouter_def)
  have pre: "invokeAll ConfigureProvider [TestServer 0 emptySchema [Some (warning ''a'')] []] ''cfg'' []
     = ([(Some \<lparr>ConfigureDiagnostics = [Some (warning ''a'')]\<rparr>, None)], [0])"
    by (simp add: TestServer_def)
  have b: "ConfigureProvider (TestServer 1 emptySchema
           [None, Some (warning ''b1''), Some (failure ''b2''), Some (warning ''b3'')] []) ''cfg'' [0]
     = ((Some \<lparr>ConfigureDiagnostics =
           [None, Some (warning ''b1''), Some (failure ''b2''), Some (warning ''b3'')]\<rparr>, None),
        [0, 1])"
    by (simp add: TestServer_def)
  have cd: "ConfigureDiagnostics \<lparr>ConfigureDiagnostics =
           [None, Some (warning ''b1''), Some (failure ''b2''), Some (warning ''b3'')]\<rparr>
     = [None, Some (warning ''b1'')] @ Some (failure ''b2'') # [Some (warning ''b3'')]"
    by simp
  have preclean: "list_all configureClean
      [(Some \<lparr>ConfigureDiagnostics = [Some (warning ''a'')]\<rparr>, None)]"
    by (simp add: warning_def)
  have noerr: "\<not> list_ex hasErrorSeverity [None, Some (warning ''b1'')]"
    by (simp add: warning_def)
  have sev: "Severity (failure ''b2'') = DiagnosticSeverityError"
    by (simp add: failure_def)
  have one: "SchemaServer_ConfigureProvider configureCleanExample ''cfg'' [] =
       Returns ((Some \<lparr>ConfigureDiagnostics =
                   [Some (warning ''a''), Some (warning ''b''), Some (warning ''c'')]\<rparr>, None),
                [0, 1, 2])"
    using configure_fan_out [of configureCleanExample "''cfg''" "[]"] clean
    by (simp add: ex_clean_invoke nonNil_def)
  have "SchemaServer_ConfigureProvider configureExample ''cfg'' [] =
       Returns ((Some (\<lparr>ConfigureDiagnostics =
           [None, Some (warning ''b1''), Some (failure ''b2''), Some (warning ''b3'')]\<rparr>
             \<lparr>ConfigureDiagnostics :=
                concat (map configureReplyDiagnostics
                   [(Some \<lparr>ConfigureDiagnostics = [Some (warning ''a'')]\<rparr>, None)])
                @ nonNil [None, Some (warning ''b1'')] @ [Some (failure ''b2'')]\<rparr>), None),
                [0, 1])"
    using conjunct2 [OF configure_fan_out [of configureExample "''cfg''" "[]"]]
      split pre b cd preclean noerr sev
    by blast
  then have two: "SchemaServer_ConfigureProvider configureExample ''cfg'' [] =
       Returns ((Some \<lparr>ConfigureDiagnostics =
                   [Some (warning ''a''), Some (warning ''b1''), Some (failure ''b2'')]\<rparr>, None),
                [0, 1])"
    by (simp add: nonNil_def)
  from clean one split two show ?thesis by simp
qed

section \<open>ConfigureProvider: nil diagnostics\<close>

lemma configureDiags_no_nil:
  "None \<notin> set acc \<Longrightarrow> configureDiags ds acc = r \<Longrightarrow>
   (case r of Inl x \<Rightarrow> None \<notin> set x | Inr x \<Rightarrow> None \<notin> set x)"
  by (induction ds acc arbitrary: r rule: configureDiags.induct) (auto split: if_splits)

lemma ConfigureProvider_loop_no_nil:
  "None \<notin> set acc \<Longrightarrow>
   ConfigureProvider_loop pos bs req acc w = Returns ((Some resp, None), w') \<Longrightarrow>
   None \<notin> set (ConfigureDiagnostics resp)"
proof (induction bs arbitrary: pos acc w)
  case Nil
  then show ?case by auto
next
  case (Cons b bs)
  obtain r e w1 where b: "ConfigureProvider b req w = ((r, e), w1)"
    by (cases "ConfigureProvider b req w") auto
  show ?case
  proof (cases e)
    case (Some err)
    with Cons.prems b show ?thesis by (simp split: option.splits)
  next
    case None
    note e = this
    show ?thesis
    proof (cases r)
      case None
      with Cons.prems b e show ?thesis by simp
    next
      case (Some rb)
      from configureDiags_no_nil [OF Cons.prems(1) refl, of "ConfigureDiagnostics rb"]
      show ?thesis
        using Cons.prems(2) b e Some Cons.IH
        by (cases "configureDiags (ConfigureDiagnostics rb) acc") auto
    qed
  qed
qed

lemma ConfigureProvider_loop_dropNil:
  "ConfigureProvider_loop pos (map dropNilDiagnostics bs) req acc w
   = ConfigureProvider_loop pos bs req acc w"
proof (induction bs arbitrary: pos acc w)
  case Nil
  then show ?case by simp
next
  case (Cons b bs)
  obtain r e w1 where b: "ConfigureProvider b req w = ((r, e), w1)"
    by (cases "ConfigureProvider b req w") auto
  show ?case
    using b Cons.IH
    by (cases r; cases e)
       (simp_all add: dropNilDiagnostics_def configureDiags_nonNil split: sum.splits)
qed

text \<open>
  C10. ConfigureProvider skips the nil entries of the diagnostics a backend returns. A response
  that ConfigureProvider returns without an error never holds a nil diagnostic, and the whole
  result (response, error, world, hence which backends are called) is the same as with
  backends whose replies have their nil entries removed: a nil entry is neither appended nor
  able to stop the fan-out.
\<close>

theorem configure_skips_nil:
  "(\<forall>resp w'. SchemaServer_ConfigureProvider s req w = Returns ((Some resp, None), w') \<longrightarrow>
       None \<notin> set (ConfigureDiagnostics resp))
   \<and> SchemaServer_ConfigureProvider
        (s\<lparr>srv_servers := map dropNilDiagnostics (srv_servers s)\<rparr>) req w
       = SchemaServer_ConfigureProvider s req w"
  using ConfigureProvider_loop_no_nil [of "[]" 0 "srv_servers s" req w]
  by (simp add: SchemaServer_ConfigureProvider_def ConfigureProvider_loop_dropNil)

theorem configure_skips_nil_witness:
  "SchemaServer_ConfigureProvider nilExample ''cfg'' []
     = Returns ((Some \<lparr>ConfigureDiagnostics = [Some (warning ''a''), Some (failure ''b'')]\<rparr>,
                 None), [0, 1])
   \<and> None \<notin> set (ConfigureDiagnostics
                     \<lparr>ConfigureDiagnostics = [Some (warning ''a''), Some (failure ''b'')]\<rparr>)"
proof -
  have run: "SchemaServer_ConfigureProvider nilExample ''cfg'' []
     = Returns ((Some \<lparr>ConfigureDiagnostics = [Some (warning ''a''), Some (failure ''b'')]\<rparr>,
                 None), [0, 1])"
    by (simp add: nilExample_def testRouter_def TestServer_def
        SchemaServer_ConfigureProvider_def warning_def failure_def)
  with configure_skips_nil [of nilExample "''cfg''" "[]"] show ?thesis by blast
qed

section \<open>StopProvider\<close>

text \<open>
  C1 says that StopProvider calls every backend even when an earlier one reports a non-empty
  error string, and returns the join of all the error strings. The source returns the reply of
  the first backend that reports one. With backends 0, 1, 2 reporting \<open>a\<close>, nothing and \<open>c\<close>:
  StopProvider returns the reply of backend 0 alone and the world shows backend 0 called
  only, whereas calling all three would leave the log 0, 1, 2.
\<close>

theorem StopProvider_returns_at_first_error:
  "SchemaServer_StopProvider stopExample StopProviderRequest []
     = Returns ((Some \<lparr>Error = ''a''\<rparr>, None), [0])
   \<and> invokeAll StopProvider (srv_servers stopExample) StopProviderRequest []
     = ([(Some \<lparr>Error = ''a''\<rparr>, None), (Some \<lparr>Error = []\<rparr>, None),
         (Some \<lparr>Error = ''c''\<rparr>, None)], [0, 1, 2])"
  by (simp add: stopExample_def testRouter_def TestServer_def SchemaServer_StopProvider_def)

end
